theory Spec2Isabelle
  imports Main "HOL-Library.Word" "HOL-Library.Signed_Division"
begin

unbundle bit_operations_syntax

section \<open>Data model\<close>

text \<open>
  The emulator is written in Go.  Its \<^verbatim>\<open>int32\<close> and \<^verbatim>\<open>int64\<close> values are words of
  that width: \<open>+\<close>, \<open>-\<close> and \<open>*\<close> wrap around as Go's do, \<open>sint\<close> reads the signed
  value, and the comparisons of the source are comparisons of the signed values.
  A protobuf message pointer that may be \<^verbatim>\<open>nil\<close> is an \<open>option\<close>.
\<close>

type_synonym int32 = "32 word"
type_synonym int64 = "64 word"

text \<open>\<^verbatim>\<open>ptimestamp.Timestamp\<close> and \<^verbatim>\<open>pduration.Duration\<close>: whole seconds and nanoseconds.\<close>

record timestamp =
  seconds :: int64
  nanos :: int32

record duration =
  dseconds :: int64
  dnanos :: int32

text \<open>
  \<^verbatim>\<open>rpcstatus.Status\<close>.  The source fills it with \<^verbatim>\<open>toRPCStatusCode(statusCode)\<close> and a
  message formatted from \<^verbatim>\<open>toCodeName\<close> of it; both helpers are defined apart from the task, and both fields are functions of the HTTP status code alone, which is what the
  record keeps.
\<close>

record rpcstatus =
  of_http_status :: int

text \<open>\<^verbatim>\<open>tasks.Attempt\<close>\<close>

record attempt =
  attempt_schedule_time :: "timestamp option"
  dispatch_time :: "timestamp option"
  response_time :: "timestamp option"
  response_status :: "rpcstatus option"

text \<open>
  \<^verbatim>\<open>tasks.Task\<close>, the protobuf state of a task, with the fields that the state updates
  read or write.
\<close>

record tasks_Task =
  name :: string
  schedule_time :: "timestamp option"
  dispatch_count :: int32
  response_count :: int32
  first_attempt :: "attempt option"
  last_attempt :: "attempt option"

text \<open>\<^verbatim>\<open>tasks.RetryConfig\<close> and \<^verbatim>\<open>tasks.Queue\<close>\<close>

record RetryConfig =
  max_attempts :: int32
  min_backoff :: "duration option"
  max_backoff :: "duration option"
  max_doublings :: int32

record tasks_Queue =
  queue_name :: string
  retry_config :: "RetryConfig option"

text \<open>
  Of the \<^verbatim>\<open>Queue\<close> struct the task and the server read the field \<^verbatim>\<open>state\<close> only.
\<close>

record Queue =
  qstate :: tasks_Queue

text \<open>
  What a task does to the world around it: the lines it logs, the calls of its
  completion callback \<^verbatim>\<open>onDone\<close>, and the calls of \<^verbatim>\<open>Schedule()\<close> that arm a new wait.
\<close>

datatype event =
  LogTaskDone
  | LogTaskExecError int
  | LogRanOutOfAttempts
  | CallOnDone
  | CallSchedule

text \<open>
  The \<^verbatim>\<open>Task\<close> struct: its queue, its protobuf state, and the effects so far.  The mutex
  serialises the state updates, which are therefore functions from task to task.
\<close>

record Task =
  queue :: Queue
  state :: tasks_Task
  events :: "event list"

definition emit :: "event \<Rightarrow> Task \<Rightarrow> Task" where
  "emit e task = task\<lparr>events := events task @ [e]\<rparr>"

subsection \<open>Generated getters\<close>

text \<open>The protobuf getters answer the zero value on a \<^verbatim>\<open>nil\<close> receiver.\<close>

definition GetSeconds :: "timestamp option \<Rightarrow> int64" where
  "GetSeconds t = (case t of None \<Rightarrow> 0 | Some ts \<Rightarrow> seconds ts)"

definition GetNanos :: "timestamp option \<Rightarrow> int32" where
  "GetNanos t = (case t of None \<Rightarrow> 0 | Some ts \<Rightarrow> nanos ts)"

definition GetMinBackoff :: "RetryConfig option \<Rightarrow> duration option" where
  "GetMinBackoff c = (case c of None \<Rightarrow> None | Some rc \<Rightarrow> min_backoff rc)"

definition GetMaxBackoff :: "RetryConfig option \<Rightarrow> duration option" where
  "GetMaxBackoff c = (case c of None \<Rightarrow> None | Some rc \<Rightarrow> max_backoff rc)"

definition GetMaxAttempts :: "RetryConfig option \<Rightarrow> int32" where
  "GetMaxAttempts c = (case c of None \<Rightarrow> 0 | Some rc \<Rightarrow> max_attempts rc)"

subsection \<open>Conversions of the protobuf library\<close>

text \<open>
  \<^verbatim>\<open>ptypes.Duration\<close> and \<^verbatim>\<open>ptypes.DurationProto\<close> belong to the protobuf library, not to
  the emulator.  They are written here as that library defines them.  A
  \<^verbatim>\<open>time.Duration\<close> is an \<^verbatim>\<open>int64\<close> count of nanoseconds.  Go's \<^verbatim>\<open>/\<close> truncates towards
  zero, which is \<open>sdiv\<close> on the signed values.
\<close>

definition maxSeconds :: int where
  "maxSeconds = 315576000000"

definition validateDuration :: "duration \<Rightarrow> bool" where
  "validateDuration d =
     (\<not> (sint (dseconds d) < - maxSeconds \<or> sint (dseconds d) > maxSeconds)
      \<and> \<not> (sint (dnanos d) \<le> - 1000000000 \<or> sint (dnanos d) \<ge> 1000000000)
      \<and> \<not> ((sint (dseconds d) < 0 \<and> sint (dnanos d) > 0)
            \<or> (sint (dseconds d) > 0 \<and> sint (dnanos d) < 0)))"

definition quo64 :: "int64 \<Rightarrow> int64 \<Rightarrow> int64" where
  "quo64 a b = word_of_int (sint a sdiv sint b)"

text \<open>
  \<^verbatim>\<open>ptypes.Duration(p)\<close> returns a duration and an error; the emulator drops the error,
  and the duration returned with an error is 0.
\<close>

definition Duration :: "duration option \<Rightarrow> int64" where
  "Duration p =
     (case p of
        None \<Rightarrow> 0
      | Some dur \<Rightarrow>
          if \<not> validateDuration dur then 0
          else
            let d = dseconds dur * 1000000000 in
            if quo64 d 1000000000 \<noteq> dseconds dur then 0
            else if dnanos dur \<noteq> 0 then
              (let d' = d + scast (dnanos dur) in
               if (sint d' < 0) \<noteq> (sint (dnanos dur) < 0) then 0 else d')
            else d)"

definition DurationProto :: "int64 \<Rightarrow> duration" where
  "DurationProto d =
     (let nanos = d;
          secs = quo64 nanos 1000000000;
          nanos = nanos - secs * 1000000000
      in \<lparr>dseconds = secs, dnanos = scast nanos\<rparr>)"

section \<open>State updates of a task\<close>

text \<open>
  The backoff of \<^verbatim>\<open>updateStateForReschedule\<close>, for a queue that has a retry
  configuration.  The constant 1 of \<^verbatim>\<open>1<<uint32(doubling)\<close> takes the type
  \<^verbatim>\<open>time.Duration\<close> of the conversion around it, so the shift is one of \<^verbatim>\<open>int64\<close>: a
  count of 64 or more gives 0.  \<^verbatim>\<open>uint32(doubling)\<close> reads the same 32 bits unsigned.
\<close>

definition backoff_of :: "RetryConfig \<Rightarrow> tasks_Task \<Rightarrow> int64" where
  "backoff_of retryConfig taskState =
     (let minBackoff = Duration (GetMinBackoff (Some retryConfig));
          maxBackoff = Duration (GetMaxBackoff (Some retryConfig));
          doubling = dispatch_count taskState - 1;
          doubling = (if sint doubling > sint (max_doublings retryConfig)
                      then max_doublings retryConfig else doubling);
          backoff = minBackoff * push_bit (unat doubling) 1
      in if sint backoff > sint maxBackoff then maxBackoff else backoff)"

text \<open>
  The new schedule time: the sum of the previous one and the backoff, the nanoseconds
  added as \<^verbatim>\<open>int64\<close> and carried once into the seconds.
\<close>

definition add_backoff :: "timestamp option \<Rightarrow> duration \<Rightarrow> timestamp" where
  "add_backoff prevScheduleTime protoBackoff =
     (let scheduleNanos = (scast (GetNanos prevScheduleTime) :: int64) + scast (dnanos protoBackoff);
          scheduleSeconds = GetSeconds prevScheduleTime + dseconds protoBackoff
      in if sint scheduleNanos \<ge> 1000000000
         then \<lparr>seconds = scheduleSeconds + 1, nanos = scast (scheduleNanos - 1000000000)\<rparr>
         else \<lparr>seconds = scheduleSeconds, nanos = scast scheduleNanos\<rparr>)"

text \<open>
  \<^verbatim>\<open>updateStateForReschedule\<close>.  The source reads \<^verbatim>\<open>retryConfig.MaxDoublings\<close> as a field,
  not through a getter: on a queue without a retry configuration that is a nil
  dereference, the result \<open>None\<close>.  In every state update the frozen copy that the source
  returns is the \<open>state\<close> of the task returned here.
\<close>

definition updateStateForReschedule :: "Task \<Rightarrow> Task option" where
  "updateStateForReschedule task =
     (let taskState = state task;
          queueState = qstate (queue task)
      in case retry_config queueState of
           None \<Rightarrow> None
         | Some retryConfig \<Rightarrow>
             let backoff = backoff_of retryConfig taskState;
                 protoBackoff = DurationProto backoff;
                 prevScheduleTime = schedule_time taskState
             in Some (task\<lparr>state := taskState
                       \<lparr>schedule_time := Some (add_backoff prevScheduleTime protoBackoff)\<rparr>\<rparr>))"

text \<open>\<^verbatim>\<open>updateStateForDispatch\<close>; \<open>dispatchTime\<close> is the clock's \<^verbatim>\<open>ptypes.TimestampNow()\<close>.\<close>

definition updateStateForDispatch :: "timestamp \<Rightarrow> Task \<Rightarrow> Task" where
  "updateStateForDispatch dispatchTime task =
     (let taskState = state task;
          taskState = taskState\<lparr>last_attempt := Some
            \<lparr>attempt_schedule_time = Some
               \<lparr>seconds = GetSeconds (schedule_time taskState),
                nanos = GetNanos (schedule_time taskState)\<rparr>,
             dispatch_time = Some dispatchTime,
             response_time = None,
             response_status = None\<rparr>\<rparr>;
          taskState = taskState\<lparr>dispatch_count := dispatch_count taskState + 1\<rparr>;
          taskState = (if first_attempt taskState = None
                       then taskState\<lparr>first_attempt := Some
                         \<lparr>attempt_schedule_time = None,
                          dispatch_time = Some dispatchTime,
                          response_time = None,
                          response_status = None\<rparr>\<rparr>
                       else taskState)
      in task\<lparr>state := taskState\<rparr>)"

text \<open>
  \<^verbatim>\<open>updateStateAfterDispatch\<close>; \<open>now\<close> is the clock at the response.  Writing through a
  \<^verbatim>\<open>nil\<close> last attempt is a nil dereference, the result \<open>None\<close>.
\<close>

definition updateStateAfterDispatch :: "timestamp \<Rightarrow> int \<Rightarrow> Task \<Rightarrow> Task option" where
  "updateStateAfterDispatch now statusCode task =
     (let taskState = state task
      in case last_attempt taskState of
           None \<Rightarrow> None
         | Some lastAttempt \<Rightarrow>
             Some (task\<lparr>state := taskState
                    \<lparr>last_attempt := Some (lastAttempt
                       \<lparr>response_time := Some now,
                        response_status := Some \<lparr>of_http_status = statusCode\<rparr>\<rparr>),
                     response_count := response_count taskState + 1\<rparr>\<rparr>))"

section \<open>The reschedule decision, attempts and runs\<close>

text \<open>
  \<^verbatim>\<open>Task.reschedule\<close>.  \<^verbatim>\<open>task.Schedule()\<close> starts a goroutine that waits; here it is the
  event \<open>CallSchedule\<close>.
\<close>

definition reschedule :: "bool \<Rightarrow> int \<Rightarrow> Task \<Rightarrow> Task option" where
  "reschedule retry statusCode task =
     (if statusCode \<ge> 200 \<and> statusCode \<le> 299 then
        Some (emit CallOnDone (emit LogTaskDone task))
      else
        let task = emit (LogTaskExecError statusCode) task in
        if retry then
          let retryConfig = retry_config (qstate (queue task)) in
          if sint (dispatch_count (state task)) \<ge> sint (GetMaxAttempts retryConfig) then
            Some (emit LogRanOutOfAttempts task)
          else
            (case updateStateForReschedule task of
               None \<Rightarrow> None
             | Some task' \<Rightarrow> Some (emit CallSchedule task'))
        else Some task)"

text \<open>
  \<^verbatim>\<open>Task.doDispatch\<close>.  \<^verbatim>\<open>dispatch\<close> is the HTTP call; what it returns, a status code or
  -1, is the argument \<open>respCode\<close>.
\<close>

definition doDispatch :: "bool \<Rightarrow> int \<Rightarrow> timestamp \<Rightarrow> Task \<Rightarrow> Task option" where
  "doDispatch retry respCode now task =
     (case updateStateAfterDispatch now respCode task of
        None \<Rightarrow> None
      | Some task' \<Rightarrow> reschedule retry respCode task')"

definition Attempt :: "timestamp \<Rightarrow> int \<Rightarrow> timestamp \<Rightarrow> Task \<Rightarrow> Task option" where
  "Attempt dispatchTime respCode now task =
     doDispatch True respCode now (updateStateForDispatch dispatchTime task)"

text \<open>
  \<^verbatim>\<open>Task.Run\<close> returns the frozen state at once and leaves \<^verbatim>\<open>doDispatch(false)\<close> to a
  goroutine: \<open>Run\<close> gives the state returned and the task as the goroutine finds it,
  \<open>Run_goroutine\<close> is what the goroutine then does.
\<close>

definition Run :: "timestamp \<Rightarrow> Task \<Rightarrow> tasks_Task \<times> Task" where
  "Run dispatchTime task =
     (let task' = updateStateForDispatch dispatchTime task in (state task', task'))"

definition Run_goroutine :: "int \<Rightarrow> timestamp \<Rightarrow> Task \<Rightarrow> Task option" where
  "Run_goroutine respCode now task = doDispatch False respCode now task"

section \<open>The server's lookup tables\<close>

text \<open>
  The server keeps two Go maps from names to pointers.  A name can be absent from a map,
  or present with a \<^verbatim>\<open>nil\<close> pointer (the marker left behind when a queue is deleted or a
  task is done), or present with a live object: \<open>None\<close>, \<open>Some None\<close> and
  \<open>Some (Some x)\<close>.
\<close>

record Server =
  qs :: "string \<rightharpoonup> Queue option"
  ts :: "string \<rightharpoonup> Task option"

definition NewServer :: Server where
  "NewServer = \<lparr>qs = Map.empty, ts = Map.empty\<rparr>"

text \<open>
  What a handler gives back: a reply, a gRPC status error, or no answer at all because the
  handler dereferenced a \<^verbatim>\<open>nil\<close> pointer and panicked.
\<close>

datatype code = NotFound | FailedPrecondition

datatype 'a rpc = Reply 'a | Error code string | NilDereference

text \<open>
  \<^verbatim>\<open>Server.GetQueue\<close>.  Indexing a Go map with an absent key gives the zero value, a
  \<^verbatim>\<open>nil\<close> pointer, and \<^verbatim>\<open>queue.state\<close> then reads through it.
\<close>

definition GetQueue :: "Server \<Rightarrow> string \<Rightarrow> tasks_Queue rpc" where
  "GetQueue s in_name =
     (let queue = (case qs s in_name of None \<Rightarrow> None | Some q \<Rightarrow> q)
      in case queue of
           None \<Rightarrow> NilDereference
         | Some q \<Rightarrow> Reply (qstate q))"

text \<open>
  \<^verbatim>\<open>Server.PurgeQueue\<close>, \<^verbatim>\<open>PauseQueue\<close> and \<^verbatim>\<open>ResumeQueue\<close> share one shape: look the queue
  up, call a method of it, answer \<^verbatim>\<open>queue.state\<close>.  The methods \<^verbatim>\<open>Purge\<close>, \<^verbatim>\<open>Pause\<close> and
  \<^verbatim>\<open>Resume\<close> of \<^verbatim>\<open>Queue\<close> belong to the queue's dispatch engine and are the parameter
  \<open>method\<close>.  On a \<^verbatim>\<open>nil\<close> queue the handler panics at the read of \<^verbatim>\<open>queue.state\<close>
  at the latest, whatever the method did with its \<^verbatim>\<open>nil\<close> receiver.
\<close>

definition call_queue_method :: "(Queue \<Rightarrow> Queue) \<Rightarrow> Server \<Rightarrow> string \<Rightarrow> tasks_Queue rpc" where
  "call_queue_method method s in_name =
     (let queue = (case qs s in_name of None \<Rightarrow> None | Some q \<Rightarrow> q)
      in case queue of
           None \<Rightarrow> NilDereference
         | Some q \<Rightarrow> Reply (qstate (method q)))"

definition PurgeQueue :: "(Queue \<Rightarrow> Queue) \<Rightarrow> Server \<Rightarrow> string \<Rightarrow> tasks_Queue rpc" where
  "PurgeQueue Purge s in_name = call_queue_method Purge s in_name"

definition PauseQueue :: "(Queue \<Rightarrow> Queue) \<Rightarrow> Server \<Rightarrow> string \<Rightarrow> tasks_Queue rpc" where
  "PauseQueue Pause s in_name = call_queue_method Pause s in_name"

definition ResumeQueue :: "(Queue \<Rightarrow> Queue) \<Rightarrow> Server \<Rightarrow> string \<Rightarrow> tasks_Queue rpc" where
  "ResumeQueue Resume s in_name = call_queue_method Resume s in_name"

text \<open>\<^verbatim>\<open>Server.GetTask\<close>\<close>

definition GetTask :: "Server \<Rightarrow> string \<Rightarrow> tasks_Task rpc" where
  "GetTask s in_name =
     (case ts s in_name of
        None \<Rightarrow> Error NotFound ''Task does not exist.''
      | Some None \<Rightarrow>
          Error FailedPrecondition
            ''The task no longer exists,  though a task with this name existed recently. The task either successfully completed or was deleted.''
      | Some (Some task) \<Rightarrow> Reply (state task))"

text \<open>
  The completion callback that \<^verbatim>\<open>Server.CreateQueue\<close> hands to every queue:
  \<^verbatim>\<open>s.ts[task.state.GetName()] = nil\<close>.
\<close>

definition onDone :: "Task \<Rightarrow> Server \<Rightarrow> Server" where
  "onDone task s = s\<lparr>ts := (ts s)(name (state task) \<mapsto> None)\<rparr>"

section \<open>Points and spans of time as integers\<close>

text \<open>
  The number of nanoseconds that a timestamp and a duration stand for, as unbounded
  integers: the yardstick for the arithmetic on their two components.
\<close>

definition timestamp_ns :: "timestamp \<Rightarrow> int" where
  "timestamp_ns t = sint (seconds t) * 1000000000 + sint (nanos t)"

definition duration_ns :: "duration \<Rightarrow> int" where
  "duration_ns d = sint (dseconds d) * 1000000000 + sint (dnanos d)"

section \<open>Concrete inputs\<close>

text \<open>
  A queue with the policy of the specification's scenario, its number of attempts left
  open, and a task of it that has been dispatched \<open>k\<close> times.
\<close>

definition example_queue :: "int32 \<Rightarrow> Queue" where
  "example_queue n =
     \<lparr>qstate = \<lparr>queue_name = ''projects/p/locations/l/queues/q'',
        retry_config = Some
          \<lparr>max_attempts = n,
           min_backoff = Some \<lparr>dseconds = 0, dnanos = 200000000\<rparr>,
           max_backoff = Some \<lparr>dseconds = 10, dnanos = 0\<rparr>,
           max_doublings = 3\<rparr>\<rparr>\<rparr>"

definition example_task :: "int32 \<Rightarrow> int32 \<Rightarrow> Task" where
  "example_task n k =
     \<lparr>queue = example_queue n,
      state = \<lparr>name = ''projects/p/locations/l/queues/q/tasks/1'',
        schedule_time = Some \<lparr>seconds = 5, nanos = 900000000\<rparr>,
        dispatch_count = k,
        response_count = 0,
        first_attempt = None,
        last_attempt = None\<rparr>,
      events = []\<rparr>"

text \<open>
  A queue that doubles up to 40 times from one second, with a cap of one hour, and a task
  of it that has been dispatched \<open>k\<close> times.
\<close>

definition long_policy :: RetryConfig where
  "long_policy =
     \<lparr>max_attempts = 100,
      min_backoff = Some \<lparr>dseconds = 1, dnanos = 0\<rparr>,
      max_backoff = Some \<lparr>dseconds = 3600, dnanos = 0\<rparr>,
      max_doublings = 40\<rparr>"

definition long_task :: "int32 \<Rightarrow> Task" where
  "long_task k =
     \<lparr>queue = \<lparr>qstate = \<lparr>queue_name = ''projects/p/locations/l/queues/long'',
        retry_config = Some long_policy\<rparr>\<rparr>,
      state = \<lparr>name = ''projects/p/locations/l/queues/long/tasks/1'',
        schedule_time = Some \<lparr>seconds = 5, nanos = 900000000\<rparr>,
        dispatch_count = k,
        response_count = 0,
        first_attempt = None,
        last_attempt = None\<rparr>,
      events = []\<rparr>"


text \<open>
  \<open>n\<close> attempts in a row that each end with status 500, the dispatch at second 6 and the
  response at second 7 of the clock.
\<close>

fun failed_attempts :: "nat \<Rightarrow> Task \<Rightarrow> Task option" where
  "failed_attempts 0 task = Some task"
| "failed_attempts (Suc n) task =
     (case failed_attempts n task of
        None \<Rightarrow> None
      | Some task' \<Rightarrow> Attempt \<lparr>seconds = 6, nanos = 0\<rparr> 500 \<lparr>seconds = 7, nanos = 0\<rparr> task')"

section \<open>The backoff as the specification states it\<close>

text \<open>
  The specification's formula, on unbounded integers: the minimum backoff times two to the
  power of the smaller of the dispatch count less one and the number of doublings, capped
  at the maximum backoff.  It is the yardstick for \<open>backoff_of\<close>, which is the source's
  computation on \<^verbatim>\<open>int64\<close>.
\<close>

definition spec_backoff :: "int \<Rightarrow> int \<Rightarrow> int \<Rightarrow> int \<Rightarrow> int" where
  "spec_backoff minBackoff maxBackoff maxDoublings dispatchCount =
     min (minBackoff * 2 ^ nat (min (dispatchCount - 1) maxDoublings)) maxBackoff"

section \<open>Sequences of state updates\<close>

text \<open>
  The operations that change a task's state, as data, so that a statement can speak of
  everything that happens to a task after some point: \<^verbatim>\<open>Attempt()\<close> is a \<open>ForDispatch\<close>,
  an \<open>AfterDispatch\<close> and a \<open>Reschedule True\<close>; \<^verbatim>\<open>Run()\<close> with its goroutine is a
  \<open>ForDispatch\<close>, an \<open>AfterDispatch\<close> and a \<open>Reschedule False\<close>.
\<close>

datatype update =
  ForDispatch timestamp
  | AfterDispatch timestamp int
  | ForReschedule
  | Reschedule bool int

fun apply_update :: "update \<Rightarrow> Task \<Rightarrow> Task option" where
  "apply_update (ForDispatch dispatchTime) task = Some (updateStateForDispatch dispatchTime task)"
| "apply_update (AfterDispatch now statusCode) task = updateStateAfterDispatch now statusCode task"
| "apply_update ForReschedule task = updateStateForReschedule task"
| "apply_update (Reschedule retry statusCode) task = reschedule retry statusCode task"

fun apply_updates :: "update list \<Rightarrow> Task \<Rightarrow> Task option" where
  "apply_updates [] task = Some task"
| "apply_updates (u # us) task =
     (case apply_update u task of None \<Rightarrow> None | Some task' \<Rightarrow> apply_updates us task')"

text \<open>
  The updates that start a new attempt, and what makes two attempt records the record of
  one attempt: the schedule time and the dispatch time they were written with.
\<close>

fun is_dispatch :: "update \<Rightarrow> bool" where
  "is_dispatch (ForDispatch dispatchTime) = True"
| "is_dispatch u = False"

definition same_attempt :: "attempt option \<Rightarrow> attempt option \<Rightarrow> bool" where
  "same_attempt a b =
     (map_option attempt_schedule_time a = map_option attempt_schedule_time b
      \<and> map_option dispatch_time a = map_option dispatch_time b)"

section \<open>The reschedule decision\<close>

text \<open>
  C5.  When the status of an attempt lies in 200..299, the reschedule decision calls the
  completion callback exactly once and schedules nothing further, with retry enabled and
  with retry disabled: the task's state is left as it was (no update for reschedule), and
  the only effects are the log line and one call of \<^verbatim>\<open>onDone\<close> (no call of
  \<^verbatim>\<open>Schedule()\<close>).
\<close>

theorem reschedule_success_completes_once:
  assumes "200 \<le> statusCode" and "statusCode \<le> 299"
  shows "reschedule retry statusCode task
           = Some (task\<lparr>events := events task @ [LogTaskDone, CallOnDone]\<rparr>)
         \<and> (\<exists>task'. reschedule retry statusCode task = Some task'
              \<and> state task' = state task
              \<and> count_list (events task') CallOnDone = count_list (events task) CallOnDone + 1
              \<and> count_list (events task') CallSchedule = count_list (events task) CallSchedule)"
  using assms by (simp add: reschedule_def emit_def)

theorem reschedule_success_completes_once_witness:
  "reschedule True 204 (example_task 5 1)
     = Some ((example_task 5 1)\<lparr>events := [LogTaskDone, CallOnDone]\<rparr>)
   \<and> reschedule False 204 (example_task 5 1)
     = Some ((example_task 5 1)\<lparr>events := [LogTaskDone, CallOnDone]\<rparr>)"
  using reschedule_success_completes_once [of 204 True "example_task 5 1"]
    reschedule_success_completes_once [of 204 False "example_task 5 1"]
  by (simp add: example_task_def)

text \<open>
  When a retry is scheduled: the status is not a success, retry is enabled, and the
  dispatch count is below the maximum number of attempts.  There is no other path to
  \<^verbatim>\<open>Schedule()\<close>.
\<close>

lemma reschedule_schedules_iff:
  assumes "retry_config (qstate (queue task)) \<noteq> None"
  shows "(\<exists>task'. reschedule retry statusCode task = Some task'
            \<and> CallSchedule \<in> set (events task') - set (events task))
         \<longleftrightarrow> (CallSchedule \<notin> set (events task)
              \<and> \<not> (200 \<le> statusCode \<and> statusCode \<le> 299) \<and> retry
              \<and> sint (dispatch_count (state task))
                  < sint (GetMaxAttempts (retry_config (qstate (queue task)))))"
  using assms
  by (auto simp add: reschedule_def emit_def updateStateForReschedule_def Let_def
      split: option.splits)

text \<open>
  C3, as the specification has it: with a maximum of 0 attempts the retries are unbounded,
  and a failed attempt with retry enabled is always rescheduled.  The source compares
  \<^verbatim>\<open>DispatchCount >= GetMaxAttempts()\<close> and has no case for 0: on the example queue with a
  maximum of 0, the first attempt that ends with status 500 runs out of attempts.  The
  schedule time stays, and \<^verbatim>\<open>Schedule()\<close> is not called.
\<close>

theorem max_attempts_zero_counterexample:
  "reschedule True 500 (example_task 0 1)
     = Some ((example_task 0 1)\<lparr>events := [LogTaskExecError 500, LogRanOutOfAttempts]\<rparr>)
   \<and> reschedule True 500 (example_task 0 1)
     \<noteq> map_option (emit CallSchedule)
         (updateStateForReschedule (emit (LogTaskExecError 500) (example_task 0 1)))"
  by (simp add: reschedule_def emit_def example_task_def example_queue_def GetMaxAttempts_def
      updateStateForReschedule_def)

text \<open>
  C3, amended.  For a queue whose maximum number of attempts is 0, retries are exhausted
  from the start: every attempt with retry enabled that ends with a status outside
  200..299, at any dispatch count of 1 or more, takes the branch that logs the exhaustion;
  the state is not updated for a reschedule, \<^verbatim>\<open>Schedule()\<close> is not called, and neither is
  the completion callback.
\<close>

theorem max_attempts_zero_exhausted:
  assumes "GetMaxAttempts (retry_config (qstate (queue task))) = 0"
    and "1 \<le> sint (dispatch_count (state task))"
    and "statusCode < 200 \<or> 299 < statusCode"
  shows "reschedule True statusCode task
           = Some (task\<lparr>events := events task @ [LogTaskExecError statusCode, LogRanOutOfAttempts]\<rparr>)"
  using assms by (auto simp add: reschedule_def emit_def)

theorem max_attempts_zero_exhausted_witness:
  "reschedule True 503 (example_task 0 7)
     = Some ((example_task 0 7)\<lparr>events := [LogTaskExecError 503, LogRanOutOfAttempts]\<rparr>)"
proof -
  have a: "GetMaxAttempts (retry_config (qstate (queue (example_task 0 7)))) = 0"
    by (simp add: example_task_def example_queue_def GetMaxAttempts_def)
  have b: "1 \<le> sint (dispatch_count (state (example_task 0 7)))"
    by (simp add: example_task_def)
  have c: "(503 :: int) < 200 \<or> 299 < (503 :: int)"
    by simp
  show ?thesis
    using max_attempts_zero_exhausted [OF a b c] by (simp add: example_task_def)
qed

section \<open>Lookups at the server\<close>

text \<open>
  C8.  A lookup of a task name that is absent from the table answers the not-found error
  \<open>Task does not exist.\<close>  A lookup of a name whose entry is the \<^verbatim>\<open>nil\<close> marker answers
  a failed-precondition error, which differs from the former in code and in message.  The
  completion callback of the server leaves exactly that marker under the task's name, so
  the lookup of a task after its completion or deletion answers the second error.
\<close>

theorem GetTask_tombstone_distinct:
  "(ts s in_name = None \<longrightarrow>
      GetTask s in_name = Error NotFound ''Task does not exist.'')
   \<and> (ts s in_name = Some None \<longrightarrow>
      GetTask s in_name = Error FailedPrecondition
        ''The task no longer exists,  though a task with this name existed recently. The task either successfully completed or was deleted.'')
   \<and> GetTask (onDone task s) (name (state task)) = Error FailedPrecondition
        ''The task no longer exists,  though a task with this name existed recently. The task either successfully completed or was deleted.''
   \<and> GetTask (onDone task s) (name (state task))
        \<noteq> Error NotFound ''Task does not exist.''"
  by (simp add: GetTask_def onDone_def)

theorem GetTask_tombstone_distinct_witness:
  "GetTask NewServer ''projects/p/locations/l/queues/q/tasks/1''
     = Error NotFound ''Task does not exist.''
   \<and> GetTask (onDone (example_task 5 1) NewServer) ''projects/p/locations/l/queues/q/tasks/1''
     = Error FailedPrecondition
        ''The task no longer exists,  though a task with this name existed recently. The task either successfully completed or was deleted.''"
proof -
  have absent: "ts NewServer ''projects/p/locations/l/queues/q/tasks/1'' = None"
    by (simp add: NewServer_def)
  have marked: "ts (onDone (example_task 5 1) NewServer)
      ''projects/p/locations/l/queues/q/tasks/1'' = Some None"
    by (simp add: onDone_def example_task_def)
  show ?thesis
    using absent marked
      GetTask_tombstone_distinct
        [of NewServer "''projects/p/locations/l/queues/q/tasks/1''" "example_task 5 1"]
      GetTask_tombstone_distinct
        [of "onDone (example_task 5 1) NewServer"
            "''projects/p/locations/l/queues/q/tasks/1''" "example_task 5 1"]
    by simp
qed

text \<open>
  C9, which says that a request for a queue that is absent or marked as deleted is answered
  with a lookup error.  The four handlers do not test the result of the lookup (the
  source of \<^verbatim>\<open>GetQueue\<close> leaves a note to handle the not-found case later): on a new
  server, and on a server that holds the \<^verbatim>\<open>nil\<close> marker under the name, each of them
  reads through the \<^verbatim>\<open>nil\<close> queue and panics instead of answering.
\<close>

theorem queue_handlers_nil_dereference:
  "GetQueue NewServer ''projects/p/locations/l/queues/q'' = NilDereference
   \<and> PurgeQueue Purge NewServer ''projects/p/locations/l/queues/q'' = NilDereference
   \<and> PauseQueue Pause NewServer ''projects/p/locations/l/queues/q'' = NilDereference
   \<and> ResumeQueue Resume NewServer ''projects/p/locations/l/queues/q'' = NilDereference
   \<and> GetQueue (NewServer\<lparr>qs := [''projects/p/locations/l/queues/q'' \<mapsto> None]\<rparr>)
        ''projects/p/locations/l/queues/q'' = NilDereference
   \<and> PurgeQueue Purge (NewServer\<lparr>qs := [''projects/p/locations/l/queues/q'' \<mapsto> None]\<rparr>)
        ''projects/p/locations/l/queues/q'' = NilDereference
   \<and> PauseQueue Pause (NewServer\<lparr>qs := [''projects/p/locations/l/queues/q'' \<mapsto> None]\<rparr>)
        ''projects/p/locations/l/queues/q'' = NilDereference
   \<and> ResumeQueue Resume (NewServer\<lparr>qs := [''projects/p/locations/l/queues/q'' \<mapsto> None]\<rparr>)
        ''projects/p/locations/l/queues/q'' = NilDereference"
  by (simp add: GetQueue_def PurgeQueue_def PauseQueue_def ResumeQueue_def
      call_queue_method_def NewServer_def)

section \<open>The attempt records\<close>

lemma updateStateForDispatch_first_attempt_kept:
  "first_attempt (state task) \<noteq> None \<Longrightarrow>
   first_attempt (state (updateStateForDispatch dispatchTime task)) = first_attempt (state task)"
  by (simp add: updateStateForDispatch_def Let_def)

lemma updateStateAfterDispatch_first_attempt:
  "updateStateAfterDispatch now statusCode task = Some task' \<Longrightarrow>
   first_attempt (state task') = first_attempt (state task)"
  by (auto simp add: updateStateAfterDispatch_def Let_def split: option.splits)

lemma updateStateForReschedule_first_attempt:
  "updateStateForReschedule task = Some task' \<Longrightarrow>
   first_attempt (state task') = first_attempt (state task)"
  by (auto simp add: updateStateForReschedule_def Let_def split: option.splits)

lemma reschedule_first_attempt:
  "reschedule retry statusCode task = Some task' \<Longrightarrow>
   first_attempt (state task') = first_attempt (state task)"
  by (auto simp add: reschedule_def emit_def Let_def
      dest!: updateStateForReschedule_first_attempt split: if_splits option.splits)

lemma apply_update_first_attempt:
  assumes "apply_update u task = Some task'" and "first_attempt (state task) \<noteq> None"
  shows "first_attempt (state task') = first_attempt (state task)"
proof (cases u)
  case (ForDispatch dispatchTime)
  with assms show ?thesis
    by (auto simp add: updateStateForDispatch_first_attempt_kept)
next
  case (AfterDispatch now statusCode)
  with assms show ?thesis
    by (auto dest: updateStateAfterDispatch_first_attempt)
next
  case ForReschedule
  with assms show ?thesis
    by (auto dest: updateStateForReschedule_first_attempt)
next
  case (Reschedule retry statusCode)
  with assms show ?thesis
    by (auto dest: reschedule_first_attempt)
qed

lemma apply_updates_first_attempt:
  "apply_updates us task = Some task' \<Longrightarrow> first_attempt (state task) \<noteq> None \<Longrightarrow>
   first_attempt (state task') = first_attempt (state task)"
proof (induction us arbitrary: task)
  case Nil
  then show ?case by simp
next
  case (Cons u us)
  from Cons.prems(1) obtain mid where mid: "apply_update u task = Some mid"
    and rest: "apply_updates us mid = Some task'"
    by (auto split: option.splits)
  from mid Cons.prems(2) have keep: "first_attempt (state mid) = first_attempt (state task)"
    by (rule apply_update_first_attempt)
  with Cons.prems(2) have "first_attempt (state mid) \<noteq> None"
    by simp
  with rest have "first_attempt (state task') = first_attempt (state mid)"
    by (rule Cons.IH)
  with keep show ?case by simp
qed

lemma updateStateAfterDispatch_last_attempt:
  "updateStateAfterDispatch now statusCode task = Some task' \<Longrightarrow>
   same_attempt (last_attempt (state task')) (last_attempt (state task))"
  by (auto simp add: updateStateAfterDispatch_def same_attempt_def Let_def split: option.splits)

lemma updateStateForReschedule_last_attempt:
  "updateStateForReschedule task = Some task' \<Longrightarrow>
   last_attempt (state task') = last_attempt (state task)"
  by (auto simp add: updateStateForReschedule_def Let_def split: option.splits)

lemma reschedule_last_attempt:
  "reschedule retry statusCode task = Some task' \<Longrightarrow>
   last_attempt (state task') = last_attempt (state task)"
  by (auto simp add: reschedule_def emit_def Let_def
      dest!: updateStateForReschedule_last_attempt split: if_splits option.splits)

lemma apply_update_last_attempt:
  assumes "apply_update u task = Some task'" and "\<not> is_dispatch u"
  shows "same_attempt (last_attempt (state task')) (last_attempt (state task))"
proof (cases u)
  case (ForDispatch dispatchTime)
  with assms(2) show ?thesis by simp
next
  case (AfterDispatch now statusCode)
  with assms(1) show ?thesis
    by (auto dest: updateStateAfterDispatch_last_attempt)
next
  case ForReschedule
  with assms(1) show ?thesis
    by (auto simp add: same_attempt_def dest: updateStateForReschedule_last_attempt)
next
  case (Reschedule retry statusCode)
  with assms(1) show ?thesis
    by (auto simp add: same_attempt_def dest: reschedule_last_attempt)
qed

lemma apply_updates_last_attempt:
  "apply_updates us task = Some task' \<Longrightarrow> \<forall>u \<in> set us. \<not> is_dispatch u \<Longrightarrow>
   same_attempt (last_attempt (state task')) (last_attempt (state task))"
proof (induction us arbitrary: task)
  case Nil
  then show ?case by (simp add: same_attempt_def)
next
  case (Cons u us)
  from Cons.prems(1) obtain mid where mid: "apply_update u task = Some mid"
    and rest: "apply_updates us mid = Some task'"
    by (auto split: option.splits)
  from Cons.prems(2) have "\<not> is_dispatch u" and "\<forall>v \<in> set us. \<not> is_dispatch v"
    by simp_all
  with mid rest Cons.IH [of mid]
  have "same_attempt (last_attempt (state mid)) (last_attempt (state task))"
    and "same_attempt (last_attempt (state task')) (last_attempt (state mid))"
    by (auto dest: apply_update_last_attempt)
  then show ?case
    by (simp add: same_attempt_def)
qed

text \<open>
  C10, as the specification has it: after the first dispatch the first attempt carries the
  same schedule time and dispatch time as the last attempt written by that update.  On the
  example task, dispatched for the first time at second 7, the last attempt has the task's
  schedule time and the first attempt has none: the source builds the first attempt from
  the dispatch time alone.
\<close>

theorem first_attempt_schedule_time_counterexample:
  "first_attempt (state (updateStateForDispatch \<lparr>seconds = 7, nanos = 0\<rparr> (example_task 5 0)))
     = Some \<lparr>attempt_schedule_time = None,
             dispatch_time = Some \<lparr>seconds = 7, nanos = 0\<rparr>,
             response_time = None, response_status = None\<rparr>
   \<and> last_attempt (state (updateStateForDispatch \<lparr>seconds = 7, nanos = 0\<rparr> (example_task 5 0)))
     = Some \<lparr>attempt_schedule_time = Some \<lparr>seconds = 5, nanos = 900000000\<rparr>,
             dispatch_time = Some \<lparr>seconds = 7, nanos = 0\<rparr>,
             response_time = None, response_status = None\<rparr>
   \<and> first_attempt (state (updateStateForDispatch \<lparr>seconds = 7, nanos = 0\<rparr> (example_task 5 0)))
     \<noteq> last_attempt (state (updateStateForDispatch \<lparr>seconds = 7, nanos = 0\<rparr> (example_task 5 0)))"
  by (simp add: updateStateForDispatch_def example_task_def GetSeconds_def GetNanos_def)

text \<open>
  C10, amended.  For a task that has no first attempt yet, the first dispatch sets the
  first attempt to a record that carries the dispatch time of that dispatch and nothing
  else: the same dispatch time as the last attempt written by the same update, which alone
  carries the copy of the schedule time.  No later state update, and so no later attempt
  or run, overwrites the first attempt.  Every update for dispatch replaces the last
  attempt by the record of that dispatch, and until the next update for dispatch the last
  attempt remains the record of that dispatch, with its schedule time and dispatch time.
\<close>

theorem first_attempt_set_once:
  assumes "first_attempt (state task) = None"
  shows "first_attempt (state (updateStateForDispatch dispatchTime task))
           = Some \<lparr>attempt_schedule_time = None,
                   dispatch_time = Some dispatchTime,
                   response_time = None, response_status = None\<rparr>
         \<and> last_attempt (state (updateStateForDispatch dispatchTime task))
           = Some \<lparr>attempt_schedule_time = Some
                     \<lparr>seconds = GetSeconds (schedule_time (state task)),
                      nanos = GetNanos (schedule_time (state task))\<rparr>,
                   dispatch_time = Some dispatchTime,
                   response_time = None, response_status = None\<rparr>
         \<and> (\<forall>us task'. apply_updates us (updateStateForDispatch dispatchTime task) = Some task'
              \<longrightarrow> first_attempt (state task')
                  = first_attempt (state (updateStateForDispatch dispatchTime task)))
         \<and> (\<forall>later t. last_attempt (state (updateStateForDispatch later t))
              = Some \<lparr>attempt_schedule_time = Some
                        \<lparr>seconds = GetSeconds (schedule_time (state t)),
                         nanos = GetNanos (schedule_time (state t))\<rparr>,
                      dispatch_time = Some later,
                      response_time = None, response_status = None\<rparr>)
         \<and> (\<forall>later t us task'.
              (\<forall>u \<in> set us. \<not> is_dispatch u)
              \<and> apply_updates us (updateStateForDispatch later t) = Some task'
              \<longrightarrow> same_attempt (last_attempt (state task'))
                    (last_attempt (state (updateStateForDispatch later t))))"
proof -
  have first: "first_attempt (state (updateStateForDispatch dispatchTime task))
      = Some \<lparr>attempt_schedule_time = None, dispatch_time = Some dispatchTime,
              response_time = None, response_status = None\<rparr>"
    using assms by (simp add: updateStateForDispatch_def Let_def)
  have last: "last_attempt (state (updateStateForDispatch later t))
      = Some \<lparr>attempt_schedule_time = Some
                \<lparr>seconds = GetSeconds (schedule_time (state t)),
                 nanos = GetNanos (schedule_time (state t))\<rparr>,
              dispatch_time = Some later,
              response_time = None, response_status = None\<rparr>" for later t
    by (simp add: updateStateForDispatch_def Let_def)
  have kept: "first_attempt (state task')
      = first_attempt (state (updateStateForDispatch dispatchTime task))"
    if "apply_updates us (updateStateForDispatch dispatchTime task) = Some task'" for us task'
    using that first by (intro apply_updates_first_attempt) simp_all
  have recent: "same_attempt (last_attempt (state task'))
      (last_attempt (state (updateStateForDispatch later t)))"
    if "\<forall>u \<in> set us. \<not> is_dispatch u"
      and "apply_updates us (updateStateForDispatch later t) = Some task'" for later t us task'
    using that(2,1) by (rule apply_updates_last_attempt)
  from first last kept recent show ?thesis
    by blast
qed

theorem first_attempt_set_once_witness:
  "first_attempt (state (example_task 5 0)) = None
   \<and> first_attempt (state (updateStateForDispatch \<lparr>seconds = 7, nanos = 0\<rparr> (example_task 5 0)))
     = Some \<lparr>attempt_schedule_time = None,
             dispatch_time = Some \<lparr>seconds = 7, nanos = 0\<rparr>,
             response_time = None, response_status = None\<rparr>
   \<and> first_attempt (state (updateStateForDispatch \<lparr>seconds = 9, nanos = 0\<rparr>
        (updateStateForDispatch \<lparr>seconds = 7, nanos = 0\<rparr> (example_task 5 0))))
     = Some \<lparr>attempt_schedule_time = None,
             dispatch_time = Some \<lparr>seconds = 7, nanos = 0\<rparr>,
             response_time = None, response_status = None\<rparr>"
proof -
  have unset: "first_attempt (state (example_task 5 0)) = None"
    by (simp add: example_task_def)
  have again: "apply_updates [ForDispatch \<lparr>seconds = 9, nanos = 0\<rparr>]
      (updateStateForDispatch \<lparr>seconds = 7, nanos = 0\<rparr> (example_task 5 0))
      = Some (updateStateForDispatch \<lparr>seconds = 9, nanos = 0\<rparr>
          (updateStateForDispatch \<lparr>seconds = 7, nanos = 0\<rparr> (example_task 5 0)))"
    by simp
  from first_attempt_set_once [OF unset, of "\<lparr>seconds = 7, nanos = 0\<rparr>"] again unset
  show ?thesis
    by metis
qed

section \<open>The new schedule time\<close>

subsection \<open>Signed values of sums and conversions that stay in range\<close>

lemma sint_scast_64_32:
  assumes "- (2^31) \<le> sint (w::64 word)" and "sint w < 2^31"
  shows "sint (scast w :: 32 word) = sint w"
proof -
  have "sint (scast w :: 32 word) = signed_take_bit (LENGTH(32) - 1) (sint w)"
    unfolding scast_eq by (rule sint_sbintrunc')
  also have "\<dots> = signed_take_bit 31 (sint w)"
    by simp
  also have "\<dots> = sint w"
    using assms by (intro signed_take_bit_int_eq_self) simp_all
  finally show ?thesis .
qed

lemma word_of_int_sint64: "word_of_int (sint (a :: int64)) = a"
  by (simp add: scast_eq [symmetric])

lemma sint_word_of_int64:
  assumes "- (2 ^ 63) \<le> k" and "k < 2 ^ 63"
  shows "sint (word_of_int k :: int64) = k"
proof -
  have "sint (word_of_int k :: int64) = signed_take_bit (LENGTH(64) - 1) k"
    by (rule sint_sbintrunc')
  also have "\<dots> = signed_take_bit 63 k"
    by simp
  also have "\<dots> = k"
    using assms by (intro signed_take_bit_int_eq_self) simp_all
  finally show ?thesis .
qed

lemma sint64_range: "- (2 ^ 63) \<le> sint (d :: int64) \<and> sint d < 2 ^ 63"
  using sint_ge [of d] sint_lt [of d] by simp

lemma sint_add64:
  assumes "- (2^63) \<le> sint a + sint b" and "sint a + sint b < 2^63"
  shows "sint (a + b :: 64 word) = sint a + sint b"
proof -
  have "sint (a + b) = signed_take_bit (LENGTH(64) - 1) (sint a + sint b)"
    by (rule sint_word_add)
  also have "\<dots> = signed_take_bit 63 (sint a + sint b)"
    by simp
  also have "\<dots> = sint a + sint b"
    using assms by (intro signed_take_bit_int_eq_self) simp_all
  finally show ?thesis .
qed

lemma sint_sub64:
  assumes "- (2^63) \<le> sint a - sint b" and "sint a - sint b < 2^63"
  shows "sint (a - b :: 64 word) = sint a - sint b"
proof -
  have "sint (a - b) = signed_take_bit (LENGTH(64) - 1) (sint a - sint b)"
    by (rule sint_word_diff)
  also have "\<dots> = signed_take_bit 63 (sint a - sint b)"
    by simp
  also have "\<dots> = sint a - sint b"
    using assms by (intro signed_take_bit_int_eq_self) simp_all
  finally show ?thesis .
qed

lemma sint_scast_32_64: "sint (scast (n :: 32 word) :: 64 word) = sint n"
  by (simp add: sint_up_scast is_up)

lemma sint32_range: "- (2^31) \<le> sint (n :: 32 word) \<and> sint n < 2^31"
  using sint_ge[of n] sint_lt[of n] by simp

lemma nanos_sum:
  "sint ((scast (n1 :: 32 word) :: 64 word) + scast (n2 :: 32 word)) = sint n1 + sint n2"
proof -
  have "- (2^31) \<le> sint n1" "sint n1 < 2^31" "- (2^31) \<le> sint n2" "sint n2 < 2^31"
    using sint32_range by blast+
  then show ?thesis
    by (subst sint_add64) (simp_all add: sint_scast_32_64)
qed

subsection \<open>The duration as seconds and nanoseconds\<close>

text \<open>
  \<^verbatim>\<open>DurationProto\<close> splits every \<^verbatim>\<open>int64\<close> duration into its truncated quotient and its
  remainder by 1e9, without loss; the nanoseconds of a duration of 0 or more lie in
  [0, 1e9).
\<close>

lemma quotient_remainder_billion:
  fixes x :: int
  assumes "- (2 ^ 63) \<le> x" and "x < 2 ^ 63"
  shows "- (2 ^ 63) \<le> x sdiv 1000000000 \<and> x sdiv 1000000000 < 2 ^ 63
         \<and> - 1000000000 < x smod 1000000000 \<and> x smod 1000000000 < 1000000000
         \<and> 1000000000 * (x sdiv 1000000000) + x smod 1000000000 = x"
proof -
  have eq: "1000000000 * (x sdiv 1000000000) + x smod 1000000000 = x"
    by (rule mult_sdiv_smod_eq)
  have "x smod 1000000000 \<in> {- \<bar>1000000000\<bar> + 1..\<bar>1000000000\<bar> - 1}"
    by (rule smod_int_range) simp
  then have r: "- 1000000000 < x smod 1000000000" "x smod 1000000000 < 1000000000"
    by simp_all
  from eq r assms have "- (2 ^ 63) \<le> x sdiv 1000000000" "x sdiv 1000000000 < 2 ^ 63"
    by simp_all
  with eq r show ?thesis
    by simp
qed

lemma DurationProto_components:
  "sint (dseconds (DurationProto d)) = sint d sdiv 1000000000
   \<and> sint (dnanos (DurationProto d)) = sint d smod 1000000000"
proof -
  let ?x = "sint d"
  let ?q = "?x sdiv 1000000000"
  let ?r = "?x smod 1000000000"
  from quotient_remainder_billion [of ?x] sint64_range [of d]
  have q: "- (2 ^ 63) \<le> ?q" "?q < 2 ^ 63"
    and r: "- 1000000000 < ?r" "?r < 1000000000"
    and eq: "1000000000 * ?q + ?r = ?x"
    by simp_all
  have secs: "sint (quo64 d 1000000000) = ?q"
    using q by (simp add: quo64_def sint_word_of_int64)
  have "d - quo64 d 1000000000 * 1000000000
      = word_of_int ?x - word_of_int ?q * word_of_int 1000000000"
    by (simp add: quo64_def word_of_int_sint64)
  also have "\<dots> = word_of_int (?x - ?q * 1000000000)"
    by (simp only: wi_hom_mult wi_hom_sub)
  also from eq have "?x - ?q * 1000000000 = ?r"
    by simp
  finally have n: "d - quo64 d 1000000000 * 1000000000 = word_of_int ?r" .
  from r have "sint (word_of_int ?r :: int64) = ?r"
    by (intro sint_word_of_int64) simp_all
  moreover from this r have "sint (scast (word_of_int ?r :: int64) :: int32) = sint (word_of_int ?r :: int64)"
    by (intro sint_scast_64_32) simp_all
  ultimately have "sint (scast (d - quo64 d 1000000000 * 1000000000) :: int32) = ?r"
    using n by simp
  with secs show ?thesis
    by (simp add: DurationProto_def Let_def)
qed


lemma DurationProto_exact: "duration_ns (DurationProto d) = sint d"
proof -
  have "1000000000 * (sint d sdiv 1000000000) + sint d smod 1000000000 = sint d"
    by (rule mult_sdiv_smod_eq)
  then show ?thesis
    by (simp add: duration_ns_def DurationProto_components)
qed

lemma DurationProto_nanos_nonneg:
  assumes "0 \<le> sint d"
  shows "0 \<le> sint (dnanos (DurationProto d)) \<and> sint (dnanos (DurationProto d)) < 1000000000"
  using assms smod_int_compares(1,2) [of "sint d" 1000000000]
  by (simp add: DurationProto_components)

lemma sint32_eq_0:
  assumes "sint (n :: int32) = 0"
  shows "n = 0"
proof -
  have "n = word_of_int (sint n)"
    by (simp add: scast_eq [symmetric])
  with assms show ?thesis
    by simp
qed

lemma sdiv_times_billion: "(S * 1000000000) sdiv 1000000000 = (S :: int)"
  by (simp add: signed_divide_int_def abs_mult sgn_mult mult_sgn_abs)

text \<open>
  \<^verbatim>\<open>Duration\<close> gives the nanoseconds of every valid duration that a \<^verbatim>\<open>time.Duration\<close> can
  hold.
\<close>

lemma Duration_exact:
  assumes "validateDuration dur"
    and "- (2 ^ 63) \<le> duration_ns dur" and "duration_ns dur < 2 ^ 63"
  shows "sint (Duration (Some dur)) = duration_ns dur"
proof -
  let ?S = "sint (dseconds dur)" and ?N = "sint (dnanos dur)"
  from assms(1) have signs: "\<not> (?S < 0 \<and> ?N > 0)" "\<not> (?S > 0 \<and> ?N < 0)"
    and n: "- 1000000000 < ?N" "?N < 1000000000"
    by (auto simp add: validateDuration_def)
  from assms(2,3) have total: "- (2 ^ 63) \<le> ?S * 1000000000 + ?N" "?S * 1000000000 + ?N < 2 ^ 63"
    by (simp_all add: duration_ns_def)
  have prod: "- (2 ^ 63) \<le> ?S * 1000000000 \<and> ?S * 1000000000 < 2 ^ 63"
    using signs n total sint_ge [of "dseconds dur"] sint_lt [of "dseconds dur"] by (cases "?S < 0"; cases "?S = 0") auto
  have "dseconds dur * 1000000000 = word_of_int ?S * word_of_int 1000000000"
    by (simp add: word_of_int_sint64)
  also have "\<dots> = word_of_int (?S * 1000000000)"
    by (rule wi_hom_mult)
  finally have w: "dseconds dur * 1000000000 = word_of_int (?S * 1000000000)" .
  from prod have "sint (word_of_int (?S * 1000000000) :: int64) = ?S * 1000000000"
    by (intro sint_word_of_int64) simp_all
  with w have d: "sint (dseconds dur * 1000000000) = ?S * 1000000000"
    by simp
  then have same: "quo64 (dseconds dur * 1000000000) 1000000000 = dseconds dur"
    by (simp add: quo64_def sdiv_times_billion word_of_int_sint64)
  have sum: "sint (dseconds dur * 1000000000 + scast (dnanos dur)) = ?S * 1000000000 + ?N"
    using total d by (subst sint_add64) (simp_all add: sint_scast_32_64)
  show ?thesis
  proof (cases "dnanos dur = 0")
    case True
    with assms(1) same d show ?thesis
      by (simp add: Duration_def Let_def duration_ns_def)
  next
    case False
    then have "?N \<noteq> 0"
      by (auto dest: sint32_eq_0)
    with signs sum have "(sint (dseconds dur * 1000000000 + scast (dnanos dur)) < 0) = (?N < 0)"
      by (cases "?S < 0"; cases "?S = 0") (auto simp add: not_less)
    with False assms(1) same sum show ?thesis
      by (simp add: Duration_def Let_def duration_ns_def)
  qed
qed

subsection \<open>The carry of the nanoseconds\<close>

lemma add_backoff_carry:
  assumes "0 \<le> sint (GetNanos prev)" "sint (GetNanos prev) < 1000000000"
    and "0 \<le> sint (dnanos b)" "sint (dnanos b) < 1000000000"
    and "1000000000 \<le> sint (GetNanos prev) + sint (dnanos b)"
  shows "seconds (add_backoff prev b) = GetSeconds prev + dseconds b + 1
    \<and> sint (nanos (add_backoff prev b)) = sint (GetNanos prev) + sint (dnanos b) - 1000000000"
proof -
  let ?N = "(scast (GetNanos prev) :: int64) + scast (dnanos b)"
  have N: "sint ?N = sint (GetNanos prev) + sint (dnanos b)"
    by (rule nanos_sum)
  have sub: "sint (?N - 1000000000) = sint ?N - 1000000000"
    using assms N by (subst sint_sub64) simp_all
  have "sint (scast (?N - 1000000000) :: int32) = sint (?N - 1000000000)"
    using assms N sub by (intro sint_scast_64_32) simp_all
  with sub N assms show ?thesis
    by (simp add: add_backoff_def Let_def)
qed

lemma add_backoff_no_carry:
  assumes "0 \<le> sint (GetNanos prev)" "sint (GetNanos prev) < 1000000000"
    and "0 \<le> sint (dnanos b)" "sint (dnanos b) < 1000000000"
    and "sint (GetNanos prev) + sint (dnanos b) < 1000000000"
  shows "seconds (add_backoff prev b) = GetSeconds prev + dseconds b
    \<and> sint (nanos (add_backoff prev b)) = sint (GetNanos prev) + sint (dnanos b)"
proof -
  let ?N = "(scast (GetNanos prev) :: int64) + scast (dnanos b)"
  have N: "sint ?N = sint (GetNanos prev) + sint (dnanos b)"
    by (rule nanos_sum)
  have "sint (scast ?N :: int32) = sint ?N"
    using assms N by (intro sint_scast_64_32) simp_all
  with N assms show ?thesis
    by (simp add: add_backoff_def Let_def)
qed

lemma carry_mod:
  fixes n :: int
  assumes "1000000000 \<le> n" and "n < 2000000000"
  shows "n mod 1000000000 = n - 1000000000" 
proof -
  have "n mod 1000000000 = (n - 1000000000) mod 1000000000"
    by (simp only: minus_mod_self2)
  also have "\<dots> = n - 1000000000"
    using assms by (intro mod_pos_pos_trivial) simp_all
  finally show ?thesis .
qed

lemma carry_div:
  fixes n :: int
  assumes "1000000000 \<le> n" and "n < 2000000000"
  shows "n div 1000000000 = 1"
proof -
  have "1000000000 * (n div 1000000000) + n mod 1000000000 = n"
    by (rule mult_div_mod_eq)
  with carry_mod [OF assms] show ?thesis
    by simp
qed

lemma add_backoff_components:
  assumes "0 \<le> sint (GetNanos prev)" "sint (GetNanos prev) < 1000000000"
    and "0 \<le> sint (dnanos b)" "sint (dnanos b) < 1000000000"
  shows "seconds (add_backoff prev b)
           = GetSeconds prev + dseconds b
             + word_of_int ((sint (GetNanos prev) + sint (dnanos b)) div 1000000000)
         \<and> sint (nanos (add_backoff prev b))
           = (sint (GetNanos prev) + sint (dnanos b)) mod 1000000000"
proof (cases "1000000000 \<le> sint (GetNanos prev) + sint (dnanos b)")
  case True
  moreover from assms have "sint (GetNanos prev) + sint (dnanos b) < 2000000000"
    by simp
  ultimately have "(sint (GetNanos prev) + sint (dnanos b)) div 1000000000 = 1"
    and "(sint (GetNanos prev) + sint (dnanos b)) mod 1000000000
         = sint (GetNanos prev) + sint (dnanos b) - 1000000000"
    by (simp_all only: carry_div carry_mod)
  with add_backoff_carry [OF assms True] show ?thesis
    by simp
next
  case False
  with assms have "(sint (GetNanos prev) + sint (dnanos b)) div 1000000000 = 0"
    and "(sint (GetNanos prev) + sint (dnanos b)) mod 1000000000
         = sint (GetNanos prev) + sint (dnanos b)"
    by simp_all
  moreover from False have "sint (GetNanos prev) + sint (dnanos b) < 1000000000"
    by simp
  note add_backoff_no_carry [OF assms this]
  ultimately show ?thesis
    by simp
qed

lemma add_backoff_exact:
  assumes "0 \<le> sint (GetNanos prev)" "sint (GetNanos prev) < 1000000000"
    and "0 \<le> sint (dnanos b)" "sint (dnanos b) < 1000000000"
    and "- (2 ^ 63) \<le> sint (GetSeconds prev) + sint (dseconds b)"
    and "sint (GetSeconds prev) + sint (dseconds b) + 1 < 2 ^ 63"
  shows "timestamp_ns (add_backoff prev b)
           = sint (GetSeconds prev) * 1000000000 + sint (GetNanos prev) + duration_ns b"
proof -
  let ?n = "sint (GetNanos prev) + sint (dnanos b)"
  have sum: "sint (GetSeconds prev + dseconds b) = sint (GetSeconds prev) + sint (dseconds b)"
    using assms(5,6) by (intro sint_add64) simp_all
  show ?thesis
  proof (cases "1000000000 \<le> ?n")
    case True
    have one: "sint (1 :: int64) = 1"
      by simp
    have "sint (GetSeconds prev + dseconds b + 1) = sint (GetSeconds prev + dseconds b) + sint (1 :: int64)"
      using assms(5,6) sum one by (intro sint_add64) simp_all
    with add_backoff_carry [OF assms(1-4) True] sum one show ?thesis
      by (simp add: timestamp_ns_def duration_ns_def)
  next
    case False
    then have "?n < 1000000000" by simp
    from add_backoff_no_carry [OF assms(1-4) this] sum show ?thesis
      by (simp add: timestamp_ns_def duration_ns_def)
  qed
qed

lemma add_backoff_nanos_range:
  assumes "0 \<le> sint (GetNanos prev)" "sint (GetNanos prev) < 1000000000"
    and "0 \<le> sint (dnanos b)" "sint (dnanos b) < 1000000000"
  shows "0 \<le> sint (nanos (add_backoff prev b)) \<and> sint (nanos (add_backoff prev b)) < 1000000000"
  using add_backoff_components [OF assms] by simp

text \<open>
  C2.  When the nanoseconds of the previous schedule time and of the backoff both lie in
  [0, 1e9), the update for reschedule sets the schedule time to their sum with the carry:
  the new nanoseconds are the sum of the two modulo 1e9 and lie in [0, 1e9) again, and the
  new seconds are the sum of the two seconds plus the carry of the nanoseconds (0 or 1),
  in the 64-bit arithmetic of the seconds field.  The two components of the backoff stand
  for the backoff computed, without loss.  Whenever the sum of the seconds fits the seconds
  field, the new schedule time is, as a number of nanoseconds, exactly the previous one
  plus the backoff.
\<close>

theorem reschedule_time_is_sum_with_carry:
  assumes "retry_config (qstate (queue task)) = Some retryConfig"
    and "prev = schedule_time (state task)"
    and "protoBackoff = DurationProto (backoff_of retryConfig (state task))"
    and "0 \<le> sint (GetNanos prev)" and "sint (GetNanos prev) < 1000000000"
    and "0 \<le> sint (dnanos protoBackoff)" and "sint (dnanos protoBackoff) < 1000000000"
  shows "\<exists>task' new.
           updateStateForReschedule task = Some task'
           \<and> schedule_time (state task') = Some new
           \<and> 0 \<le> sint (nanos new) \<and> sint (nanos new) < 1000000000
           \<and> sint (nanos new) = (sint (GetNanos prev) + sint (dnanos protoBackoff)) mod 1000000000
           \<and> seconds new = GetSeconds prev + dseconds protoBackoff
               + word_of_int ((sint (GetNanos prev) + sint (dnanos protoBackoff)) div 1000000000)
           \<and> duration_ns protoBackoff = sint (backoff_of retryConfig (state task))
           \<and> (- (2 ^ 63) \<le> sint (GetSeconds prev) + sint (dseconds protoBackoff)
                \<and> sint (GetSeconds prev) + sint (dseconds protoBackoff) + 1 < 2 ^ 63
              \<longrightarrow> timestamp_ns new
                  = sint (GetSeconds prev) * 1000000000 + sint (GetNanos prev)
                    + sint (backoff_of retryConfig (state task)))"
proof -
  let ?new = "add_backoff prev protoBackoff"
  have upd: "updateStateForReschedule task
      = Some (task\<lparr>state := (state task)\<lparr>schedule_time := Some ?new\<rparr>\<rparr>)"
    using assms(1-3) by (simp add: updateStateForReschedule_def Let_def)
  have range: "0 \<le> sint (nanos ?new) \<and> sint (nanos ?new) < 1000000000"
    using assms(4-7) by (rule add_backoff_nanos_range)
  have n: "sint (nanos ?new) = (sint (GetNanos prev) + sint (dnanos protoBackoff)) mod 1000000000"
    using add_backoff_components [OF assms(4-7)] by simp
  have s: "seconds ?new = GetSeconds prev + dseconds protoBackoff
      + word_of_int ((sint (GetNanos prev) + sint (dnanos protoBackoff)) div 1000000000)"
    using add_backoff_components [OF assms(4-7)] by simp
  have whole: "duration_ns protoBackoff = sint (backoff_of retryConfig (state task))"
    using assms(3) by (simp add: DurationProto_exact)
  have "timestamp_ns ?new
      = sint (GetSeconds prev) * 1000000000 + sint (GetNanos prev) + duration_ns protoBackoff"
    if "- (2 ^ 63) \<le> sint (GetSeconds prev) + sint (dseconds protoBackoff)"
      and "sint (GetSeconds prev) + sint (dseconds protoBackoff) + 1 < 2 ^ 63"
    using assms(4-7) that by (rule add_backoff_exact)
  with whole have exact: "timestamp_ns ?new
      = sint (GetSeconds prev) * 1000000000 + sint (GetNanos prev)
        + sint (backoff_of retryConfig (state task))"
    if "- (2 ^ 63) \<le> sint (GetSeconds prev) + sint (dseconds protoBackoff)"
      and "sint (GetSeconds prev) + sint (dseconds protoBackoff) + 1 < 2 ^ 63"
    using that by simp
  from upd range n s whole exact show ?thesis
    by auto
qed

text \<open>
  The example of the specification: 5 s and 900,000,000 ns, plus a backoff of 200,000,000 ns
  (the first retry of the example queue), is 6 s and 100,000,000 ns.
\<close>

lemma example_backoff:
  "DurationProto (backoff_of
      \<lparr>max_attempts = 5,
       min_backoff = Some \<lparr>dseconds = 0, dnanos = 200000000\<rparr>,
       max_backoff = Some \<lparr>dseconds = 10, dnanos = 0\<rparr>,
       max_doublings = 3\<rparr> (state (example_task 5 1)))
   = \<lparr>dseconds = 0, dnanos = 200000000\<rparr>"
  by (simp add: backoff_of_def example_task_def Duration_def validateDuration_def
      maxSeconds_def quo64_def GetMinBackoff_def GetMaxBackoff_def DurationProto_def)

theorem reschedule_time_is_sum_with_carry_witness:
  "map_option (\<lambda>task'. schedule_time (state task')) (updateStateForReschedule (example_task 5 1))
     = Some (Some \<lparr>seconds = 6, nanos = 100000000\<rparr>)"
proof -
  let ?rc = "\<lparr>max_attempts = 5,
       min_backoff = Some \<lparr>dseconds = 0, dnanos = 200000000\<rparr>,
       max_backoff = Some \<lparr>dseconds = 10, dnanos = 0\<rparr>,
       max_doublings = 3\<rparr>"
  let ?prev = "Some \<lparr>seconds = 5, nanos = 900000000\<rparr>"
  let ?b = "\<lparr>dseconds = 0, dnanos = 200000000\<rparr>"
  have a1: "retry_config (qstate (queue (example_task 5 1))) = Some ?rc"
    by (simp add: example_task_def example_queue_def)
  have a2: "?prev = schedule_time (state (example_task 5 1))"
    by (simp add: example_task_def)
  have a3: "?b = DurationProto (backoff_of ?rc (state (example_task 5 1)))"
    by (simp only: example_backoff)
  have a4: "0 \<le> sint (GetNanos ?prev)" and a5: "sint (GetNanos ?prev) < 1000000000"
    by (simp_all add: GetNanos_def)
  have a6: "0 \<le> sint (dnanos ?b)" and a7: "sint (dnanos ?b) < 1000000000"
    by simp_all
  from reschedule_time_is_sum_with_carry [OF a1 a2 a3 a4 a5 a6 a7]
  obtain task' new where r: "updateStateForReschedule (example_task 5 1) = Some task'"
    and n: "schedule_time (state task') = Some new"
    and nn: "sint (nanos new) = (sint (GetNanos ?prev) + sint (dnanos ?b)) mod 1000000000"
    and ss: "seconds new = GetSeconds ?prev + dseconds ?b
               + word_of_int ((sint (GetNanos ?prev) + sint (dnanos ?b)) div 1000000000)"
    by blast
  from nn have "sint (nanos new) = 100000000"
    by (simp add: GetNanos_def)
  then have "word_of_int (sint (nanos new)) = (word_of_int 100000000 :: int32)"
    by simp
  then have n': "nanos new = 100000000"
    by simp
  from ss have s': "seconds new = 6"
    by (simp add: GetSeconds_def GetNanos_def)
  from n' s' have "new = \<lparr>seconds = 6, nanos = 100000000\<rparr>"
    by (cases new) simp
  with r n show ?thesis
    by simp
qed

section \<open>The counts of dispatches and responses\<close>

lemma updateStateForDispatch_counts:
  "dispatch_count (state (updateStateForDispatch dispatchTime task)) = dispatch_count (state task) + 1
   \<and> response_count (state (updateStateForDispatch dispatchTime task)) = response_count (state task)"
  by (simp add: updateStateForDispatch_def Let_def)

lemma updateStateForDispatch_last_attempt:
  "last_attempt (state (updateStateForDispatch dispatchTime task))
     = Some \<lparr>attempt_schedule_time = Some
               \<lparr>seconds = GetSeconds (schedule_time (state task)),
                nanos = GetNanos (schedule_time (state task))\<rparr>,
             dispatch_time = Some dispatchTime,
             response_time = None, response_status = None\<rparr>"
  by (simp add: updateStateForDispatch_def Let_def)

lemma updateStateForDispatch_rest:
  "queue (updateStateForDispatch dispatchTime task) = queue task
   \<and> events (updateStateForDispatch dispatchTime task) = events task
   \<and> schedule_time (state (updateStateForDispatch dispatchTime task)) = schedule_time (state task)"
  by (simp add: updateStateForDispatch_def Let_def)


lemma updateStateAfterDispatch_Some:
  "last_attempt (state task) = Some la \<Longrightarrow>
   updateStateAfterDispatch now statusCode task
     = Some (task\<lparr>state := (state task)
         \<lparr>last_attempt := Some (la\<lparr>response_time := Some now,
             response_status := Some \<lparr>of_http_status = statusCode\<rparr>\<rparr>),
          response_count := response_count (state task) + 1\<rparr>\<rparr>)"
  by (simp add: updateStateAfterDispatch_def Let_def)


















section \<open>Runs outside the queue\<close>

text \<open>
  C7.  \<^verbatim>\<open>Run()\<close> returns at once the state as the update for dispatch left it: the dispatch
  count is one more than before (1 on a first run), and the last attempt has its schedule
  time and its dispatch time while its response time and status are unset.  The value
  returned is a deep copy, \<^verbatim>\<open>proto.Clone\<close> of the state, which shares nothing with the
  task; in this development it is a value of its own for that reason, and what the goroutine
  does later is a new state of the task.  The goroutine fills the response fields of the
  task's last attempt and decides with retry disabled: on a status outside 200..299 its
  only effect besides is the log line, the schedule time stays, and neither \<^verbatim>\<open>Schedule()\<close>
  nor the completion callback is called.
\<close>

theorem Run_returns_snapshot_without_retry:
  "fst (Run dispatchTime task) = state (updateStateForDispatch dispatchTime task)
   \<and> snd (Run dispatchTime task) = updateStateForDispatch dispatchTime task
   \<and> dispatch_count (fst (Run dispatchTime task)) = dispatch_count (state task) + 1
   \<and> (dispatch_count (state task) = 0 \<longrightarrow> dispatch_count (fst (Run dispatchTime task)) = 1)
   \<and> last_attempt (fst (Run dispatchTime task))
       = Some \<lparr>attempt_schedule_time = Some
                 \<lparr>seconds = GetSeconds (schedule_time (state task)),
                  nanos = GetNanos (schedule_time (state task))\<rparr>,
               dispatch_time = Some dispatchTime,
               response_time = None, response_status = None\<rparr>
   \<and> (\<exists>task'. Run_goroutine respCode now (snd (Run dispatchTime task)) = Some task'
        \<and> last_attempt (state task')
            = Some \<lparr>attempt_schedule_time = Some
                      \<lparr>seconds = GetSeconds (schedule_time (state task)),
                       nanos = GetNanos (schedule_time (state task))\<rparr>,
                    dispatch_time = Some dispatchTime,
                    response_time = Some now,
                    response_status = Some \<lparr>of_http_status = respCode\<rparr>\<rparr>
        \<and> (respCode < 200 \<or> 299 < respCode \<longrightarrow>
             schedule_time (state task') = schedule_time (state task)
             \<and> events task' = events task @ [LogTaskExecError respCode]))"
proof -
  let ?t1 = "updateStateForDispatch dispatchTime task"
  let ?la = "\<lparr>attempt_schedule_time = Some
                 \<lparr>seconds = GetSeconds (schedule_time (state task)),
                  nanos = GetNanos (schedule_time (state task))\<rparr>,
               dispatch_time = Some dispatchTime,
               response_time = None, response_status = None\<rparr>"
  let ?t2 = "?t1\<lparr>state := (state ?t1)
         \<lparr>last_attempt := Some (?la\<lparr>response_time := Some now,
             response_status := Some \<lparr>of_http_status = respCode\<rparr>\<rparr>),
          response_count := response_count (state ?t1) + 1\<rparr>\<rparr>"
  have la: "last_attempt (state ?t1) = Some ?la"
    by (rule updateStateForDispatch_last_attempt)
  have after: "updateStateAfterDispatch now respCode ?t1 = Some ?t2"
    using la by (rule updateStateAfterDispatch_Some)
  have ok: "reschedule False respCode ?t2
      = Some (?t2\<lparr>events := events task @ [LogTaskDone, CallOnDone]\<rparr>)"
    if "200 \<le> respCode \<and> respCode \<le> 299"
    using that by (simp add: reschedule_def emit_def updateStateForDispatch_rest)
  have failed: "reschedule False respCode ?t2
      = Some (?t2\<lparr>events := events task @ [LogTaskExecError respCode]\<rparr>)"
    if "respCode < 200 \<or> 299 < respCode"
    using that by (auto simp add: reschedule_def emit_def updateStateForDispatch_rest)
  have goroutine: "\<exists>task'. Run_goroutine respCode now (snd (Run dispatchTime task)) = Some task'
        \<and> last_attempt (state task')
            = Some (?la\<lparr>response_time := Some now,
                response_status := Some \<lparr>of_http_status = respCode\<rparr>\<rparr>)
        \<and> (respCode < 200 \<or> 299 < respCode \<longrightarrow>
             schedule_time (state task') = schedule_time (state task)
             \<and> events task' = events task @ [LogTaskExecError respCode])"
  proof (cases "200 \<le> respCode \<and> respCode \<le> 299")
    case True
    with ok [OF True] after show ?thesis
      by (simp add: Run_goroutine_def Run_def Let_def doDispatch_def)
  next
    case False
    then have f: "respCode < 200 \<or> 299 < respCode"
      by auto
    with failed [OF f] after show ?thesis
      by (simp add: Run_goroutine_def Run_def Let_def doDispatch_def updateStateForDispatch_rest)
  qed
  have first: "dispatch_count (fst (Run dispatchTime task)) = dispatch_count (state task) + 1"
    by (simp add: Run_def Let_def updateStateForDispatch_counts)
  from goroutine first la show ?thesis
    by (simp add: Run_def Let_def)
qed

theorem Run_returns_snapshot_without_retry_witness:
  "dispatch_count (fst (Run \<lparr>seconds = 7, nanos = 0\<rparr> (example_task 5 0))) = 1
   \<and> (\<exists>task'. Run_goroutine 500 \<lparr>seconds = 8, nanos = 0\<rparr>
         (snd (Run \<lparr>seconds = 7, nanos = 0\<rparr> (example_task 5 0))) = Some task'
        \<and> schedule_time (state task') = Some \<lparr>seconds = 5, nanos = 900000000\<rparr>
        \<and> events task' = [LogTaskExecError 500])"
proof -
  have zero: "dispatch_count (state (example_task 5 0)) = 0"
    and sched: "schedule_time (state (example_task 5 0)) = Some \<lparr>seconds = 5, nanos = 900000000\<rparr>"
    and ev: "events (example_task 5 0) = []"
    by (simp_all add: example_task_def)
  have status: "(500 :: int) < 200 \<or> 299 < (500 :: int)"
    by simp
  from Run_returns_snapshot_without_retry
    [of "\<lparr>seconds = 7, nanos = 0\<rparr>" "example_task 5 0" 500 "\<lparr>seconds = 8, nanos = 0\<rparr>"]
    zero sched ev status
  show ?thesis
    by auto
qed

section \<open>The backoff\<close>

lemma sint_times_shift:
  assumes "- (2 ^ 63) \<le> sint a * 2 ^ k" and "sint a * 2 ^ k < 2 ^ 63"
  shows "sint ((a :: int64) * push_bit k 1) = sint a * 2 ^ k"
proof -
  have "a * push_bit k 1 = word_of_int (sint a) * word_of_int (2 ^ k)"
    by (simp only: word_of_int_sint64 word_of_int_2p push_bit_of_1)
  also have "\<dots> = word_of_int (sint a * 2 ^ k)"
    by (rule wi_hom_mult)
  finally have "sint (a * push_bit k 1) = sint (word_of_int (sint a * 2 ^ k) :: int64)"
    by simp
  also have "\<dots> = signed_take_bit (LENGTH(64) - 1) (sint a * 2 ^ k)"
    by (rule sint_sbintrunc')
  also have "\<dots> = signed_take_bit 63 (sint a * 2 ^ k)"
    by simp
  also have "\<dots> = sint a * 2 ^ k"
    using assms by (intro signed_take_bit_int_eq_self) simp_all
  finally show ?thesis .
qed

lemma unat_of_nonneg32:
  assumes "0 \<le> sint (d :: int32)"
  shows "unat d = nat (sint d)"
proof -
  have "uint d = take_bit LENGTH(32) (sint d)"
    by (rule uint_sint)
  also have "\<dots> = sint d"
    using assms sint_lt [of d] by (intro take_bit_int_eq_self) simp_all
  finally show ?thesis
    by (simp add: unat_eq_nat_uint)
qed

lemma sint_pred32:
  assumes "1 \<le> sint (c :: int32)"
  shows "sint (c - 1) = sint c - 1"
proof -
  have "sint (c - 1) = signed_take_bit (LENGTH(32) - 1) (sint c - sint (1 :: int32))"
    by (rule sint_word_diff)
  also have "\<dots> = signed_take_bit 31 (sint c - 1)"
    by simp
  also have "\<dots> = sint c - 1"
    using assms sint_lt [of c] by (intro signed_take_bit_int_eq_self) simp_all
  finally show ?thesis .
qed


lemma doubling_in_range:
  assumes "1 \<le> sint (dispatchCount :: int32)" and "0 \<le> sint (maxDoublings :: int32)"
  shows "unat (if sint (dispatchCount - 1) > sint maxDoublings then maxDoublings
               else dispatchCount - 1)
         = nat (min (sint dispatchCount - 1) (sint maxDoublings))"
proof -
  have pred: "sint (dispatchCount - 1) = sint dispatchCount - 1"
    using assms(1) by (rule sint_pred32)
  show ?thesis
  proof (cases "sint (dispatchCount - 1) > sint maxDoublings")
    case True
    with pred assms(2) show ?thesis
      by (simp add: unat_of_nonneg32 min_def)
  next
    case False
    moreover from pred assms(1) have "0 \<le> sint (dispatchCount - 1)"
      by simp
    ultimately show ?thesis
      using pred by (simp add: unat_of_nonneg32 min_def)
  qed
qed

text \<open>
  Where the product of the minimum backoff and the power of two is an \<^verbatim>\<open>int64\<close>, the
  backoff of the source is the backoff of the specification.
\<close>

lemma backoff_of_in_range:
  assumes "1 \<le> sint (dispatch_count taskState)"
    and "0 \<le> sint (max_doublings retryConfig)"
    and "- (2 ^ 63) \<le> sint (Duration (min_backoff retryConfig))
           * 2 ^ nat (min (sint (dispatch_count taskState) - 1) (sint (max_doublings retryConfig)))"
    and "sint (Duration (min_backoff retryConfig))
           * 2 ^ nat (min (sint (dispatch_count taskState) - 1) (sint (max_doublings retryConfig)))
         < 2 ^ 63"
  shows "sint (backoff_of retryConfig taskState)
         = spec_backoff (sint (Duration (min_backoff retryConfig)))
             (sint (Duration (max_backoff retryConfig)))
             (sint (max_doublings retryConfig)) (sint (dispatch_count taskState))"
proof -
  let ?k = "nat (min (sint (dispatch_count taskState) - 1) (sint (max_doublings retryConfig)))"
  let ?doubling = "if sint (dispatch_count taskState - 1) > sint (max_doublings retryConfig)
      then max_doublings retryConfig else dispatch_count taskState - 1"
  have k: "unat ?doubling = ?k"
    using assms(1,2) by (rule doubling_in_range)
  have "sint (Duration (min_backoff retryConfig) * push_bit ?k 1)
      = sint (Duration (min_backoff retryConfig)) * 2 ^ ?k"
    using assms(3,4) by (rule sint_times_shift)
  with k have prod: "sint (Duration (min_backoff retryConfig) * push_bit (unat ?doubling) 1)
      = sint (Duration (min_backoff retryConfig)) * 2 ^ ?k"
    by simp
  have "sint (backoff_of retryConfig taskState)
      = min (sint (Duration (min_backoff retryConfig) * push_bit (unat ?doubling) 1))
          (sint (Duration (max_backoff retryConfig)))"
    by (simp add: backoff_of_def Let_def GetMinBackoff_def GetMaxBackoff_def min_def)
  with prod show ?thesis
    by (simp add: spec_backoff_def)
qed

text \<open>The cap holds for every policy and every dispatch count, overflow or not.\<close>

lemma backoff_of_le_max:
  "sint (backoff_of retryConfig taskState) \<le> sint (Duration (max_backoff retryConfig))"
  by (simp add: backoff_of_def Let_def GetMaxBackoff_def)

lemma spec_backoff_mono:
  assumes "0 \<le> minBackoff" and "dispatchCount \<le> dispatchCount'"
  shows "spec_backoff minBackoff maxBackoff maxDoublings dispatchCount
         \<le> spec_backoff minBackoff maxBackoff maxDoublings dispatchCount'"
proof -
  have "nat (min (dispatchCount - 1) maxDoublings) \<le> nat (min (dispatchCount' - 1) maxDoublings)"
    using assms(2) by simp
  then have "(2 :: int) ^ nat (min (dispatchCount - 1) maxDoublings)
      \<le> 2 ^ nat (min (dispatchCount' - 1) maxDoublings)"
    by (intro power_increasing) simp_all
  then have "minBackoff * 2 ^ nat (min (dispatchCount - 1) maxDoublings)
      \<le> minBackoff * 2 ^ nat (min (dispatchCount' - 1) maxDoublings)"
    using assms(1) by (rule mult_left_mono)
  then show ?thesis
    by (simp add: spec_backoff_def min_def)
qed

text \<open>
  For a policy with a minimum backoff of 0 or more and a count of doublings of 0 or more,
  the backoff does not decrease from one dispatch count to a later one, as long as the
  product at the later count is an \<^verbatim>\<open>int64\<close>.
\<close>

lemma backoff_of_mono_in_range:
  assumes "0 \<le> sint (Duration (min_backoff retryConfig))"
    and "0 \<le> sint (max_doublings retryConfig)"
    and "1 \<le> sint (dispatch_count taskState)"
    and "sint (dispatch_count taskState) \<le> sint (dispatch_count taskState')"
    and "sint (Duration (min_backoff retryConfig))
           * 2 ^ nat (min (sint (dispatch_count taskState') - 1) (sint (max_doublings retryConfig)))
         < 2 ^ 63"
  shows "sint (backoff_of retryConfig taskState) \<le> sint (backoff_of retryConfig taskState')"
proof -
  let ?m = "sint (Duration (min_backoff retryConfig))"
  let ?k = "nat (min (sint (dispatch_count taskState) - 1) (sint (max_doublings retryConfig)))"
  let ?k' = "nat (min (sint (dispatch_count taskState') - 1) (sint (max_doublings retryConfig)))"
  have "?k \<le> ?k'"
    using assms(4) by simp
  then have "(2 :: int) ^ ?k \<le> 2 ^ ?k'"
    by (intro power_increasing) simp_all
  then have "?m * 2 ^ ?k \<le> ?m * 2 ^ ?k'"
    using assms(1) by (rule mult_left_mono)
  with assms(5) have hi: "?m * 2 ^ ?k < 2 ^ 63"
    by simp
  from assms(1) have lo: "- (2 ^ 63) \<le> ?m * 2 ^ ?k" and lo': "- (2 ^ 63) \<le> ?m * 2 ^ ?k'"
    by (smt (verit) mult_nonneg_nonneg zero_le_power)+
  from assms(3,4) have later: "1 \<le> sint (dispatch_count taskState')"
    by simp
  have "sint (backoff_of retryConfig taskState)
      = spec_backoff ?m (sint (Duration (max_backoff retryConfig)))
          (sint (max_doublings retryConfig)) (sint (dispatch_count taskState))"
    using assms(3,2) lo hi by (rule backoff_of_in_range)
  moreover have "sint (backoff_of retryConfig taskState')
      = spec_backoff ?m (sint (Duration (max_backoff retryConfig)))
          (sint (max_doublings retryConfig)) (sint (dispatch_count taskState'))"
    using later assms(2) lo' assms(5) by (rule backoff_of_in_range)
  ultimately show ?thesis
    using spec_backoff_mono [OF assms(1,4)] by simp
qed

lemma shift_beyond_64: "64 \<le> n \<Longrightarrow> push_bit n (1 :: int64) = 0"
  by (simp add: push_bit_of_1)

text \<open>
  From 64 doublings on, the shift gives 0 and with it the backoff, for any minimum backoff
  and any maximum backoff of 0 or more.
\<close>

lemma backoff_of_zero_from_64:
  assumes "65 \<le> sint (dispatch_count taskState)"
    and "64 \<le> sint (max_doublings retryConfig)"
    and "0 \<le> sint (Duration (max_backoff retryConfig))"
  shows "backoff_of retryConfig taskState = 0"
proof -
  let ?doubling = "if sint (dispatch_count taskState - 1) > sint (max_doublings retryConfig)
      then max_doublings retryConfig else dispatch_count taskState - 1"
  have "unat ?doubling
      = nat (min (sint (dispatch_count taskState) - 1) (sint (max_doublings retryConfig)))"
    using assms(1,2) by (intro doubling_in_range) simp_all
  with assms(1,2) have "64 \<le> unat ?doubling"
    by simp
  then have "push_bit (unat ?doubling) (1 :: int64) = 0"
    by (rule shift_beyond_64)
  then have prod: "Duration (GetMinBackoff (Some retryConfig)) * push_bit (unat ?doubling) 1 = 0"
    by (simp only: mult_zero_right)
  have "backoff_of retryConfig taskState
      = (if sint (0 :: int64) > sint (Duration (GetMaxBackoff (Some retryConfig)))
         then Duration (GetMaxBackoff (Some retryConfig)) else 0)"
    unfolding backoff_of_def Let_def prod ..
  with assms(3) show ?thesis
    by (simp add: GetMaxBackoff_def)
qed

lemma long_policy_durations:
  "Duration (min_backoff long_policy) = 1000000000"
  "Duration (max_backoff long_policy) = 3600000000000"
  by (simp_all add: long_policy_def Duration_def validateDuration_def maxSeconds_def quo64_def)

text \<open>
  C1 says that for every retry policy and every dispatch count of 1 or more the backoff is
  the specification's formula, hence never above the maximum backoff and never decreasing
  in the dispatch count.  The source multiplies and shifts in \<^verbatim>\<open>int64\<close> and compares with
  the maximum backoff afterwards, so a product that does not fit wraps around before the
  cap is applied.  With a minimum backoff of one second, a maximum of one hour and 40
  doublings, the backoff after 34 dispatches is the hour, and after 35 dispatches it is
  minus 1,266,874,889.7 seconds where the formula gives the hour again: the schedule time
  moves from second 5 to a point forty years earlier.  \<^verbatim>\<open>Attempt()\<close> reaches that state from
  the task dispatched 34 times when its dispatch ends with status 500.
\<close>

theorem backoff_wraps_around:
  "sint (backoff_of long_policy (state (long_task 34))) = 3600000000000
   \<and> sint (backoff_of long_policy (state (long_task 35))) = - 1266874889709551616
   \<and> spec_backoff (sint (Duration (min_backoff long_policy)))
        (sint (Duration (max_backoff long_policy)))
        (sint (max_doublings long_policy)) (sint (dispatch_count (state (long_task 35))))
      = 3600000000000
   \<and> map_option (\<lambda>task'. schedule_time (state task')) (updateStateForReschedule (long_task 35))
      = Some (Some \<lparr>seconds = - 1266874884, nanos = 190448384\<rparr>)
   \<and> map_option (\<lambda>task'. (dispatch_count (state task'), schedule_time (state task'), events task'))
        (Attempt \<lparr>seconds = 6, nanos = 0\<rparr> 500 \<lparr>seconds = 7, nanos = 0\<rparr> (long_task 34))
      = Some (35, Some \<lparr>seconds = - 1266874884, nanos = 190448384\<rparr>,
              [LogTaskExecError 500, CallSchedule])"
proof -
  have b34: "backoff_of long_policy (state (long_task 34)) = 3600000000000"
    by (simp add: backoff_of_def long_task_def GetMinBackoff_def GetMaxBackoff_def
        long_policy_durations) (simp add: long_policy_def)
  have b35: "backoff_of long_policy (state (long_task 35)) = - 1266874889709551616"
    by (simp add: backoff_of_def long_task_def GetMinBackoff_def GetMaxBackoff_def
        long_policy_durations) (simp add: long_policy_def)
  have spec: "spec_backoff (sint (Duration (min_backoff long_policy)))
        (sint (Duration (max_backoff long_policy)))
        (sint (max_doublings long_policy)) (sint (dispatch_count (state (long_task 35))))
      = 3600000000000"
    by (simp add: long_policy_durations spec_backoff_def long_task_def) (simp add: long_policy_def)
  have proto: "DurationProto (- 1266874889709551616)
      = \<lparr>dseconds = - 1266874889, dnanos = - 709551616\<rparr>"
    by (simp add: DurationProto_def quo64_def)
  have rc: "retry_config (qstate (queue (long_task 35))) = Some long_policy"
    by (simp add: long_task_def)
  have "updateStateForReschedule (long_task 35)
      = Some ((long_task 35)\<lparr>state := (state (long_task 35))
          \<lparr>schedule_time := Some (add_backoff (schedule_time (state (long_task 35)))
              \<lparr>dseconds = - 1266874889, dnanos = - 709551616\<rparr>)\<rparr>\<rparr>)"
    by (simp add: updateStateForReschedule_def Let_def rc b35 proto)
  moreover have "add_backoff (schedule_time (state (long_task 35)))
      \<lparr>dseconds = - 1266874889, dnanos = - 709551616\<rparr>
      = \<lparr>seconds = - 1266874884, nanos = 190448384\<rparr>"
    by (simp add: add_backoff_def long_task_def GetNanos_def GetSeconds_def)
  ultimately have resched: "map_option (\<lambda>task'. schedule_time (state task'))
      (updateStateForReschedule (long_task 35))
      = Some (Some \<lparr>seconds = - 1266874884, nanos = 190448384\<rparr>)"
    by simp
  have attempt: "map_option
        (\<lambda>task'. (dispatch_count (state task'), schedule_time (state task'), events task'))
        (Attempt \<lparr>seconds = 6, nanos = 0\<rparr> 500 \<lparr>seconds = 7, nanos = 0\<rparr> (long_task 34))
      = Some (35, Some \<lparr>seconds = - 1266874884, nanos = 190448384\<rparr>,
              [LogTaskExecError 500, CallSchedule])"
    by (simp add: Attempt_def doDispatch_def updateStateAfterDispatch_def
        updateStateForDispatch_def reschedule_def emit_def updateStateForReschedule_def
        backoff_of_def DurationProto_def quo64_def add_backoff_def long_task_def
        long_policy_def Duration_def validateDuration_def maxSeconds_def GetNanos_def
        GetSeconds_def GetMinBackoff_def GetMaxBackoff_def GetMaxAttempts_def Let_def)
  from b34 b35 spec resched attempt show ?thesis
    by simp
qed

text \<open>
  The same from a task that has never been dispatched: 34 failed attempts move its
  schedule time forward to second 83300, the 35th moves it back before the epoch, and the
  36th leaves it with nanoseconds below 0.
\<close>

lemma failed_attempts_reach_overflow:
  "map_option (\<lambda>task'. (dispatch_count (state task'), schedule_time (state task')))
     (failed_attempts 34 (long_task 0))
     = Some (34, Some \<lparr>seconds = 83300, nanos = 900000000\<rparr>)
   \<and> map_option (\<lambda>task'. (dispatch_count (state task'), schedule_time (state task')))
     (failed_attempts 35 (long_task 0))
     = Some (35, Some \<lparr>seconds = - 1266791589, nanos = 190448384\<rparr>)
   \<and> map_option (\<lambda>task'. (dispatch_count (state task'), schedule_time (state task')))
     (failed_attempts 36 (long_task 0))
     = Some (36, Some \<lparr>seconds = - 3800541368, nanos = - 228654848\<rparr>)"
  by code_simp

end
